theory Spec2Isabelle
  imports Main "HOL-Library.Word" "HOL-Library.Monad_Syntax"
begin

unbundle bit_operations_syntax

section \<open>QtFT2XX: the FT232 wrapper class of qft2xx.cpp\<close>

text \<open>
  The class \<^verbatim>\<open>FT232\<close> wraps the FTDI D2XX driver as a \<^verbatim>\<open>QIODevice\<close>. Its member
  functions are embedded as functions on a record of the object's fields. The driver is
  outside the class: every driver call is appended to a log kept in the record, and what
  the driver answers (status code and output parameters) is an argument of the embedded
  function, so that a statement quantifies over every behaviour of the driver. Emitted Qt
  signals are logged the same way. A function that takes \<^verbatim>\<open>ftdiMutex\<close> returns an
  option: \<open>None\<close> is a call that blocks for ever on a mutex that is already held.
  The model is sequential: one member function runs at a time. Not embedded are
  \<^verbatim>\<open>pinoutSignals\<close>, \<^verbatim>\<open>waitForReadyRead\<close> (a timer and an event loop) and the
  class \<^verbatim>\<open>FT232Info\<close>.
\<close>

subsection \<open>Machine types and the constants of the vendor header\<close>

type_synonym byte = "8 word"
type_synonym DWORD = "32 word"
type_synonym FT_STATUS = "32 word"
type_synonym FT_HANDLE = nat

text \<open>
  \<^verbatim>\<open>ftd2xx.h\<close> is FTDI's header and not a file of the repository. The numeric values
  below are the ones that header gives; the symbolic arguments of the configuration calls
  (data bits, stop bits, parity, flow control) are kept as datatypes.
\<close>

definition FT_OK :: FT_STATUS where
  "FT_OK = 0"

definition FT_INVALID_HANDLE :: FT_STATUS where
  "FT_INVALID_HANDLE = 1"

definition FT_IO_ERROR :: FT_STATUS where
  "FT_IO_ERROR = 4"

definition FT_PURGE_RX :: DWORD where
  "FT_PURGE_RX = 1"

definition FT_PURGE_TX :: DWORD where
  "FT_PURGE_TX = 2"

definition FT_EVENT_RXCHAR :: DWORD where
  "FT_EVENT_RXCHAR = 1"

definition FT_EVENT_MODEM_STATUS :: DWORD where
  "FT_EVENT_MODEM_STATUS = 2"

datatype data_bits = FT_BITS_8 | FT_BITS_7

datatype stop_bits = FT_STOP_BITS_1 | FT_STOP_BITS_2

datatype parity_mode =
  FT_PARITY_NONE | FT_PARITY_ODD | FT_PARITY_EVEN | FT_PARITY_MARK | FT_PARITY_SPACE

datatype flow_mode = FT_FLOW_NONE | FT_FLOW_RTS_CTS | FT_FLOW_DTR_DSR | FT_FLOW_XON_XOFF

text \<open>\<^verbatim>\<open>static constexpr uint16_t FTDI_LATENCY = 3\<close> (qft2xx.h).\<close>

definition FTDI_LATENCY :: "16 word" where
  "FTDI_LATENCY = 3"

subsection \<open>The enumerations of qft2xx.h\<close>

text \<open>\<^verbatim>\<open>enum PortError\<close>; \<^verbatim>\<open>PortErrors\<close> is the \<^verbatim>\<open>QFlags\<close> bit set over it.\<close>

type_synonym PortErrors = "32 word"

definition NoError :: PortErrors where
  "NoError = 0x00"

definition NotOpenError :: PortErrors where
  "NotOpenError = 0x01"

definition OverrunError :: PortErrors where
  "OverrunError = 0x02"

definition ParityError :: PortErrors where
  "ParityError = 0x04"

definition FramingError :: PortErrors where
  "FramingError = 0x10"

definition BreakConditionError :: PortErrors where
  "BreakConditionError = 0x20"

definition FIFOError :: PortErrors where
  "FIFOError = 0x40"

definition ReadError :: PortErrors where
  "ReadError = 0x80"

text \<open>\<^verbatim>\<open>QFlags::testFlag\<close>: every bit of the flag is set (and the flag is not empty,
  unless the set is empty too).\<close>

definition testFlag :: "PortErrors \<Rightarrow> PortErrors \<Rightarrow> bool" where
  "testFlag flags f = (flags AND f = f \<and> (flags = f \<or> f \<noteq> 0))"

datatype LineProperty =
  SERIAL_8N1 | SERIAL_8N2 | SERIAL_8E1 | SERIAL_8E2 | SERIAL_8O1 | SERIAL_8O2
  | SERIAL_8M1 | SERIAL_8M2 | SERIAL_8S1 | SERIAL_8S2

datatype FlowControl = NoFlowControl | HardwareControl | SoftwareControl | DTR_DSR_FlowControl

text \<open>\<^verbatim>\<open>QIODevice::OpenMode\<close>, a flag set; \<^verbatim>\<open>NotOpen\<close> is the empty one.\<close>

type_synonym OpenMode = "32 word"

definition NotOpen :: OpenMode where
  "NotOpen = 0x0000"

definition ReadWrite :: OpenMode where
  "ReadWrite = 0x0003"

subsection \<open>What the object does to the outside: driver calls and signals\<close>

datatype driver_call =
  FT_CreateDeviceInfoList
  | FT_GetDeviceInfoList
  | FT_Open int
  | FT_Close FT_HANDLE
  | FT_SetBaudRate FT_HANDLE "32 word"
  | FT_SetLatencyTimer FT_HANDLE byte
  | FT_SetTimeouts FT_HANDLE DWORD DWORD
  | FT_EE_Read FT_HANDLE
  | FT_GetLibraryVersion
  | FT_Purge FT_HANDLE DWORD
  | FT_SetEventNotification FT_HANDLE DWORD
  | FT_Write FT_HANDLE "byte list"
  | FT_SetDataCharacteristics FT_HANDLE data_bits stop_bits parity_mode
  | FT_SetFlowControl FT_HANDLE flow_mode byte byte
  | FT_SetDtr FT_HANDLE
  | FT_ClrDtr FT_HANDLE
  | FT_SetRts FT_HANDLE
  | FT_ClrRts FT_HANDLE
  | FT_GetModemStatus FT_HANDLE
  | FT_GetStatus FT_HANDLE
  | FT_GetQueueStatus FT_HANDLE
  | FT_Read FT_HANDLE DWORD

datatype signal =
  baudRateChanged int
  | linePropertyChanged LineProperty
  | flowControlChanged FlowControl
  | dataTerminalReadyChanged bool
  | requestToSendChanged bool
  | errorOccurred
  | readyRead
  | QIODevice_readyRead
  | connected
  | aboutToClose

subsection \<open>The fields of the object\<close>

text \<open>
  The private members of \<^verbatim>\<open>FT232\<close>, then the two fields of the \<^verbatim>\<open>QIODevice\<close> base
  the class reads and writes (\<open>openMode\<close>, \<open>errorString\<close>), then the two logs.
  \<open>sem\<close> is the number of resources the \<^verbatim>\<open>QSemaphore\<close> holds and \<open>ftdiMutex\<close>
  tells whether the \<^verbatim>\<open>QMutex\<close> is held. \<open>ftdiEventNotifier\<close> tells whether the
  notifier has been created and enabled. Sizes and the semaphore count are unbounded
  integers: the model is exact as long as the buffer stays below the \<open>2^31\<close> bytes a
  Qt container and the semaphore can count.
\<close>

record FT232 =
  FTDIdtr :: bool
  FTDIrts :: bool
  FTDIlineProperty :: LineProperty
  FTDIflowControl :: FlowControl
  errFlag :: PortErrors
  FTDIbaudRate :: "32 word"
  usbVID :: "32 word"
  usbPID :: "32 word"
  productName :: string
  serialNmb :: string
  manufacturerName :: string
  libraryVersion :: string
  ftdiMutex :: bool
  ftdi :: FT_HANDLE
  FTDIreadBuffer :: "byte list"
  sem :: int
  ftdiEventNotifier :: bool
  openMode :: OpenMode
  errorString :: string
  driverCalls :: "driver_call list"
  emitted :: "signal list"

definition isOpen :: "FT232 \<Rightarrow> bool" where
  "isOpen s = (openMode s \<noteq> NotOpen)"

definition setOpenMode :: "OpenMode \<Rightarrow> FT232 \<Rightarrow> FT232" where
  "setOpenMode m s = s\<lparr>openMode := m\<rparr>"

definition setErrorString :: "string \<Rightarrow> FT232 \<Rightarrow> FT232" where
  "setErrorString msg s = s\<lparr>errorString := msg\<rparr>"

definition emit :: "signal \<Rightarrow> FT232 \<Rightarrow> FT232" where
  "emit sig s = s\<lparr>emitted := emitted s @ [sig]\<rparr>"

definition driver :: "driver_call \<Rightarrow> FT232 \<Rightarrow> FT232" where
  "driver c s = s\<lparr>driverCalls := driverCalls s @ [c]\<rparr>"

text \<open>\<^verbatim>\<open>QMutex::lock\<close> on a mutex that is held never returns (the mutex is not
  recursive); \<^verbatim>\<open>QMutex::unlock\<close> releases it.\<close>

definition lock :: "FT232 \<Rightarrow> FT232 option" where
  "lock s = (if ftdiMutex s then None else Some (s\<lparr>ftdiMutex := True\<rparr>))"

definition unlock :: "FT232 \<Rightarrow> FT232" where
  "unlock s = s\<lparr>ftdiMutex := False\<rparr>"

text \<open>The baud rate getter: \<^verbatim>\<open>qint32 baudRate() {return FTDIbaudRate;}\<close> reads the
  unsigned field as a signed 32-bit value.\<close>

definition baudRate :: "FT232 \<Rightarrow> int" where
  "baudRate s = sint (FTDIbaudRate s)"

definition error :: "FT232 \<Rightarrow> PortErrors" where
  "error s = errFlag s"

subsection \<open>close\<close>

definition close :: "FT232 \<Rightarrow> FT232 option" where
  "close s = do {
     s \<leftarrow> lock s;
     let s = driver (FT_Close (ftdi s)) s;
     let s = unlock s;
     let s = setOpenMode NotOpen s;
     Some (emit aboutToClose s)
   }"

subsection \<open>readData\<close>

text \<open>
  \<^verbatim>\<open>QSemaphore::tryAcquire(n)\<close> takes \<open>n\<close> resources when that many are there and
  says so; it never waits. Qt asserts \<open>n \<ge> 0\<close>: a negative \<open>n\<close> is outside its
  contract, which is the value \<open>None\<close> here. \<^verbatim>\<open>QSemaphore::release(n)\<close> adds \<open>n\<close>.
\<close>

definition tryAcquire :: "int \<Rightarrow> FT232 \<Rightarrow> (bool \<times> FT232) option" where
  "tryAcquire n s =
     (if n < 0 then None
      else if n > sem s then Some (False, s)
      else Some (True, s\<lparr>sem := sem s - n\<rparr>))"

definition release :: "int \<Rightarrow> FT232 \<Rightarrow> FT232" where
  "release n s = s\<lparr>sem := sem s + n\<rparr>"

text \<open>
  \<^verbatim>\<open>readData(data, maxSize)\<close> returns the count, the bytes it copied to \<open>data\<close>
  and the object.
\<close>

definition readData :: "int \<Rightarrow> FT232 \<Rightarrow> (int \<times> byte list \<times> FT232) option" where
  "readData maxSize s =
     (let n = min maxSize (int (length (FTDIreadBuffer s))) in
      if n = 0 then Some (0, [], s)
      else do {
        (acquired, s) \<leftarrow> tryAcquire n s;
        if \<not> acquired then Some (0, [], s)
        else Some (n, take (nat n) (FTDIreadBuffer s),
                   s\<lparr>FTDIreadBuffer := drop (nat n) (FTDIreadBuffer s)\<rparr>)
      })"

subsection \<open>on_FTDIreceive\<close>

text \<open>
  What the driver answers during one run of the receive slot: the status of
  \<^verbatim>\<open>FT_GetQueueStatus\<close> and the count it stores in \<^verbatim>\<open>bytesAvailable\<close>, then the
  status of \<^verbatim>\<open>FT_Read\<close> and the bytes it returned (\<^verbatim>\<open>bytesReturned\<close> is their
  number).
\<close>

record receive_answer =
  queue_ret :: FT_STATUS
  queue_bytes :: DWORD
  read_ret :: FT_STATUS
  read_data :: "byte list"

definition on_FTDIreceive :: "receive_answer \<Rightarrow> FT232 \<Rightarrow> FT232 option" where
  "on_FTDIreceive d s = do {
     s \<leftarrow> lock s;
     let s = driver (FT_GetQueueStatus (ftdi s)) s;
     let bytesAvail = queue_bytes d;
     let (ret, s) =
       (if bytesAvail > 0 then (read_ret d, driver (FT_Read (ftdi s) bytesAvail) s)
        else (queue_ret d, s));
     let s = unlock s;
     if bytesAvail > 0 \<and> ret = FT_IO_ERROR then
       let s = setErrorString ''an IO error occured'' s;
           s = s\<lparr>errFlag := (if \<not> isOpen s then NotOpenError else ReadError)\<rparr>
       in Some (emit errorOccurred s)
     else if bytesAvail > 0 \<and> ret \<noteq> FT_OK then
       let s = setErrorString ''an error occured while reading bytes from the device'' s;
           s = s\<lparr>errFlag := (if \<not> isOpen s then NotOpenError else ReadError)\<rparr>
       in Some (emit errorOccurred s)
     else if bytesAvail > 0 then
       let data = read_data d;
           s = s\<lparr>FTDIreadBuffer := FTDIreadBuffer s @ data\<rparr>;
           s = release (int (length data)) s;
           s = emit readyRead s
       in Some (emit QIODevice_readyRead s)
     else Some s
   }"

text \<open>A sequence of runs of the receive slot, one after the other.\<close>

fun drains :: "receive_answer list \<Rightarrow> FT232 \<Rightarrow> FT232 option" where
  "drains [] s = Some s"
| "drains (d # ds) s = do { s \<leftarrow> on_FTDIreceive d s; drains ds s }"

text \<open>The chunk one run appends: the bytes the driver returned, when bytes were queued
  and the read succeeded; nothing otherwise.\<close>

definition chunk :: "receive_answer \<Rightarrow> byte list" where
  "chunk d = (if queue_bytes d > 0 \<and> read_ret d = FT_OK then read_data d else [])"

subsection \<open>writeData\<close>

text \<open>
  The answer of \<^verbatim>\<open>FT_Write\<close>: its status and what it stores in
  \<^verbatim>\<open>_bytesWritten\<close>. \<open>data\<close> stands for the \<open>maxSize\<close> bytes at the pointer.
  The function returns \<^verbatim>\<open>ret\<close>, converted from the unsigned status to \<^verbatim>\<open>qint64\<close>.
\<close>

record write_answer =
  write_ret :: FT_STATUS
  bytesWritten :: DWORD

definition writeData :: "byte list \<Rightarrow> write_answer \<Rightarrow> FT232 \<Rightarrow> (int \<times> FT232) option" where
  "writeData data d s = do {
     s \<leftarrow> lock s;
     let s = driver (FT_Write (ftdi s) data) s;
     let ret = write_ret d;
     let s = unlock s;
     if ret \<noteq> FT_OK then
       Some (- 1, setErrorString ''an error occured while writing to the port'' s)
     else Some (uint ret, s)
   }"

subsection \<open>The configuration setters\<close>

text \<open>Each setter takes the status the driver call answers, should the call be made.
  \<^verbatim>\<open>setBaudRate\<close> stores its \<^verbatim>\<open>qint32\<close> argument in the \<^verbatim>\<open>uint32_t\<close> field.\<close>

definition setBaudRate :: "int \<Rightarrow> FT_STATUS \<Rightarrow> FT232 \<Rightarrow> (bool \<times> FT232) option" where
  "setBaudRate baud ans s =
     (let s = s\<lparr>FTDIbaudRate := word_of_int baud\<rparr> in
      if \<not> isOpen s then Some (True, s)
      else do {
        s \<leftarrow> lock s;
        let s = driver (FT_SetBaudRate (ftdi s) (FTDIbaudRate s)) s;
        let ret = ans;
        let s = unlock s;
        if ret \<noteq> FT_OK then do {
          s \<leftarrow> close (setErrorString ''an error occured while setting the baudrate'' s);
          Some (False, s)
        }
        else Some (True, emit (baudRateChanged baud) s)
      })"

definition setLineProperty :: "LineProperty \<Rightarrow> FT_STATUS \<Rightarrow> FT232 \<Rightarrow> (bool \<times> FT232) option" where
  "setLineProperty line ans s =
     (let bits = FT_BITS_8;
          s = s\<lparr>FTDIlineProperty := line\<rparr>;
          (parity, sbit) =
            (case line of
               SERIAL_8N1 \<Rightarrow> (FT_PARITY_NONE, FT_STOP_BITS_1)
             | SERIAL_8N2 \<Rightarrow> (FT_PARITY_NONE, FT_STOP_BITS_2)
             | SERIAL_8E1 \<Rightarrow> (FT_PARITY_EVEN, FT_STOP_BITS_1)
             | SERIAL_8E2 \<Rightarrow> (FT_PARITY_EVEN, FT_STOP_BITS_2)
             | SERIAL_8O1 \<Rightarrow> (FT_PARITY_ODD, FT_STOP_BITS_1)
             | SERIAL_8O2 \<Rightarrow> (FT_PARITY_ODD, FT_STOP_BITS_2)
             | SERIAL_8M1 \<Rightarrow> (FT_PARITY_MARK, FT_STOP_BITS_1)
             | SERIAL_8M2 \<Rightarrow> (FT_PARITY_MARK, FT_STOP_BITS_2)
             | SERIAL_8S1 \<Rightarrow> (FT_PARITY_SPACE, FT_STOP_BITS_1)
             | SERIAL_8S2 \<Rightarrow> (FT_PARITY_SPACE, FT_STOP_BITS_2))
      in do {
        s \<leftarrow> lock s;
        let s = driver (FT_SetDataCharacteristics (ftdi s) bits sbit parity) s;
        let ret = ans;
        let s = unlock s;
        if ret \<noteq> FT_OK then
          Some (False, setErrorString ''an error occured while setting the data characteristics'' s)
        else Some (True, emit (linePropertyChanged line) s)
      })"

definition setFlowControl :: "FlowControl \<Rightarrow> FT_STATUS \<Rightarrow> FT232 \<Rightarrow> (bool \<times> FT232) option" where
  "setFlowControl flow ans s =
     (let flowctrl =
            (case flow of
               NoFlowControl \<Rightarrow> FT_FLOW_NONE
             | HardwareControl \<Rightarrow> FT_FLOW_RTS_CTS
             | SoftwareControl \<Rightarrow> FT_FLOW_XON_XOFF
             | DTR_DSR_FlowControl \<Rightarrow> FT_FLOW_DTR_DSR)
      in do {
        s \<leftarrow> lock s;
        let s = driver (FT_SetFlowControl (ftdi s) flowctrl 0x11 0x13) s;
        let ret = ans;
        let s = unlock s;
        if ret \<noteq> FT_OK then
          Some (False, setErrorString ''an error occured while setting the flow control'' s)
        else
          let s = s\<lparr>FTDIflowControl := flow\<rparr>
          in Some (True, emit (flowControlChanged flow) s)
      })"

definition setDataTerminalReady :: "bool \<Rightarrow> FT_STATUS \<Rightarrow> FT232 \<Rightarrow> (bool \<times> FT232) option" where
  "setDataTerminalReady set_on ans s =
     (if \<not> isOpen s then Some (False, s)
      else do {
        s \<leftarrow> lock s;
        let s = (if set_on then driver (FT_SetDtr (ftdi s)) s else driver (FT_ClrDtr (ftdi s)) s);
        let ret = ans;
        let s = unlock s;
        if ret \<noteq> FT_OK then
          Some (False, setErrorString ''an error occured while setting the DTR'' s)
        else
          let s = s\<lparr>FTDIdtr := set_on\<rparr>
          in Some (True, emit (dataTerminalReadyChanged set_on) s)
      })"

definition setRequestToSend :: "bool \<Rightarrow> FT_STATUS \<Rightarrow> FT232 \<Rightarrow> (bool \<times> FT232) option" where
  "setRequestToSend set_on ans s =
     (if \<not> isOpen s then Some (False, s)
      else do {
        s \<leftarrow> lock s;
        let s = (if set_on then driver (FT_SetRts (ftdi s)) s else driver (FT_ClrRts (ftdi s)) s);
        let ret = ans;
        let s = unlock s;
        if ret \<noteq> FT_OK then
          Some (False, setErrorString ''an error occured while setting the RTS'' s)
        else
          let s = s\<lparr>FTDIrts := set_on\<rparr>
          in Some (True, emit (requestToSendChanged set_on) s)
      })"

subsection \<open>on_FTDImodemError and on_FTDIevent\<close>

record modem_answer =
  modem_ret :: FT_STATUS
  modemStatus :: DWORD

text \<open>The mask of the serious errors, \<^verbatim>\<open>0b1000111000000000\<close> in the source: bits 15
  (receiver FIFO), 11 (framing), 10 (parity) and 9 (overrun).\<close>

definition seriousErrors :: DWORD where
  "seriousErrors = 0x8E00"

definition on_FTDImodemError :: "modem_answer \<Rightarrow> FT232 \<Rightarrow> FT232 option" where
  "on_FTDImodemError d s = do {
     s \<leftarrow> lock s;
     let s = driver (FT_GetModemStatus (ftdi s)) s;
     let ret = modem_ret d;
     let s = unlock s;
     if ret \<noteq> FT_OK then
       let s = setErrorString ''an error occured while reading the device status'' s;
           s = s\<lparr>errFlag := (if \<not> isOpen s then NotOpenError else ReadError)\<rparr>
       in Some (emit errorOccurred s)
     else if modemStatus d AND seriousErrors \<noteq> 0 then do {
       s \<leftarrow> lock s;
       let s = driver (FT_Purge (ftdi s) (FT_PURGE_RX OR FT_PURGE_TX)) s;
       Some (unlock s)
     }
     else
       let retval = NoError;
           retval = (if modemStatus d AND 0x8000 \<noteq> 0 then retval OR FIFOError else retval);
           retval = (if modemStatus d AND 0x1000 \<noteq> 0 then retval OR BreakConditionError else retval);
           retval = (if modemStatus d AND 0x0800 \<noteq> 0 then retval OR FramingError else retval);
           retval = (if modemStatus d AND 0x0400 \<noteq> 0 then retval OR ParityError else retval);
           retval = (if modemStatus d AND 0x0200 \<noteq> 0 then retval OR OverrunError else retval)
       in Some (s\<lparr>errFlag := retval\<rparr>)
   }"

record status_answer =
  status_ret :: FT_STATUS
  RxBytes :: DWORD
  TxBytes :: DWORD
  EventDWord :: DWORD

text \<open>The event slot takes the answer of \<^verbatim>\<open>FT_GetStatus\<close> and the answers the two
  slots it dispatches to would get.\<close>

definition on_FTDIevent ::
    "status_answer \<Rightarrow> modem_answer \<Rightarrow> receive_answer \<Rightarrow> FT232 \<Rightarrow> FT232 option" where
  "on_FTDIevent st md rc s = do {
     s \<leftarrow> lock s;
     let s = driver (FT_GetStatus (ftdi s)) s;
     let ret = status_ret st;
     let s = unlock s;
     if ret \<noteq> FT_OK then
       let s = setErrorString ''an error occured while reading the device status'' s;
           s = s\<lparr>errFlag := (if \<not> isOpen s then NotOpenError else ReadError)\<rparr>
       in Some (emit errorOccurred s)
     else if EventDWord st AND FT_EVENT_MODEM_STATUS \<noteq> 0 then on_FTDImodemError md s
     else if EventDWord st AND FT_EVENT_RXCHAR \<noteq> 0 then on_FTDIreceive rc s
     else Some s
   }"

subsection \<open>open\<close>

text \<open>
  What the driver answers during \<^verbatim>\<open>open\<close>. \<open>devinfo_ID\<close> is the \<^verbatim>\<open>ID\<close> field of
  each node of the device list, in order (\<^verbatim>\<open>numDevs\<close> is its length);
  \<open>open_handle\<close> is what \<^verbatim>\<open>FT_Open\<close> stores in \<^verbatim>\<open>ftdi\<close>; the three strings are
  what \<^verbatim>\<open>FT_EE_Read\<close> stores in the buffers of \<^verbatim>\<open>ftData\<close>. Of the base class's
  \<^verbatim>\<open>QIODevice::open(mode)\<close> the model keeps that it records the mode. The IDs are
  compared in the 32 bits of \<^verbatim>\<open>ulong\<close> on Windows, the only platform the header
  accepts.
\<close>

record open_answer =
  createDeviceInfoList_ret :: FT_STATUS
  getDeviceInfoList_ret :: FT_STATUS
  devinfo_ID :: "32 word list"
  open_ret :: FT_STATUS
  open_handle :: FT_HANDLE
  setBaudRate_ret :: FT_STATUS
  setLatencyTimer_ret :: FT_STATUS
  setTimeouts_ret :: FT_STATUS
  EE_Read_ret :: FT_STATUS
  ee_Description :: string
  ee_SerialNumber :: string
  ee_Manufacturer :: string
  getLibraryVersion_ret :: FT_STATUS
  libVer :: DWORD
  setEventNotification_ret :: FT_STATUS

text \<open>The search loop of \<^verbatim>\<open>open\<close>: the index of the first node with the wanted ID,
  and \<open>-1\<close> when there is none.\<close>

fun find_deviceId :: "32 word list \<Rightarrow> 32 word \<Rightarrow> nat \<Rightarrow> int" where
  "find_deviceId [] wanted i = - 1"
| "find_deviceId (d # ds) wanted i =
     (if d = wanted then int i else find_deviceId ds wanted (Suc i))"

text \<open>\<^verbatim>\<open>QString::arg(a, fieldWidth, 10, fillChar)\<close> on a number: its decimal digits,
  padded on the left to the field width. \<^verbatim>\<open>QString::toUpper\<close> on the letters of
  ASCII.\<close>

fun decimal :: "nat \<Rightarrow> string" where
  "decimal n =
     (if n < 10 then [char_of (48 + n)]
      else decimal (n div 10) @ [char_of (48 + n mod 10)])"

definition arg :: "nat \<Rightarrow> nat \<Rightarrow> char \<Rightarrow> string" where
  "arg a fieldWidth fillChar =
     replicate (fieldWidth - length (decimal a)) fillChar @ decimal a"

definition toUpper :: "string \<Rightarrow> string" where
  "toUpper str =
     map (\<lambda>c. if 97 \<le> (of_char c :: nat) \<and> (of_char c :: nat) \<le> 122
              then char_of ((of_char c :: nat) - 32) else c) str"

text \<open>The step every failure after \<^verbatim>\<open>FT_Open\<close> takes: the message, \<^verbatim>\<open>close()\<close>,
  \<^verbatim>\<open>return false\<close>.\<close>

definition open_failed :: "string \<Rightarrow> FT232 \<Rightarrow> (bool \<times> FT232) option" where
  "open_failed msg s = do {
     s \<leftarrow> close (setErrorString msg s);
     Some (False, s)
   }"

definition "open" :: "OpenMode \<Rightarrow> open_answer \<Rightarrow> FT232 \<Rightarrow> (bool \<times> FT232) option" where
  "open mode d s =
     (let s = driver FT_CreateDeviceInfoList s in
      if createDeviceInfoList_ret d \<noteq> FT_OK then
        Some (False, setErrorString ''an error occured while enumerating devices'' s)
      else
      let s = driver FT_GetDeviceInfoList s in
      if getDeviceInfoList_ret d \<noteq> FT_OK then
        Some (False, setErrorString ''an error occured while obtaining device info list'' s)
      else
      let deviceId = find_deviceId (devinfo_ID d) (usbVID s * 0x10000 + usbPID s) 0 in
      if deviceId = - 1 then
        Some (False, setErrorString ''no compatible devices found'' s)
      else
      let s = driver (FT_Open deviceId) s;
          s = s\<lparr>ftdi := open_handle d\<rparr> in
      if open_ret d \<noteq> FT_OK then
        Some (False, setErrorString ''an error occured while opening the device'' s)
      else
      let s = driver (FT_SetBaudRate (ftdi s) (FTDIbaudRate s)) s in
      if setBaudRate_ret d \<noteq> FT_OK then
        open_failed ''an error occured while setting the baudrate'' s
      else
      let s = driver (FT_SetLatencyTimer (ftdi s) (ucast FTDI_LATENCY)) s in
      if setLatencyTimer_ret d \<noteq> FT_OK then
        open_failed ''an error occured while setting the latency timer'' s
      else
      let s = driver (FT_SetTimeouts (ftdi s) 5000 2000) s in
      if setTimeouts_ret d \<noteq> FT_OK then
        open_failed ''an error occured while setting the timeouts'' s
      else
      let s = driver (FT_EE_Read (ftdi s)) s in
      if EE_Read_ret d \<noteq> FT_OK then
        open_failed ''an error occured while reading the EEPROM'' s
      else
      let s = s\<lparr>productName := ee_Description d\<rparr>;
          s = s\<lparr>serialNmb := toUpper (ee_SerialNumber d)\<rparr>;
          s = s\<lparr>manufacturerName := ee_Manufacturer d\<rparr>;
          s = driver FT_GetLibraryVersion s in
      if getLibraryVersion_ret d \<noteq> FT_OK then
        open_failed ''an error occured while getting the FTD2XX library version'' s
      else
      let major = (ucast (libVer d AND 0xFF0000) :: byte);
          minor = (ucast (libVer d AND 0xFF00) :: byte);
          build = (ucast (libVer d AND 0xFF) :: byte);
          s = s\<lparr>libraryVersion :=
                arg (unat major) 1 CHR ''0'' @ ''.'' @ arg (unat minor) 2 CHR ''0'' @ ''.''
                @ arg (unat build) 2 CHR ''0''\<rparr>;
          s = driver (FT_Purge (ftdi s) (FT_PURGE_RX OR FT_PURGE_TX)) s;
          s = setOpenMode mode s;
          s = s\<lparr>ftdiEventNotifier := True\<rparr>;
          s = driver (FT_SetEventNotification (ftdi s) (FT_EVENT_RXCHAR OR FT_EVENT_MODEM_STATUS)) s in
      if setEventNotification_ret d \<noteq> FT_OK then
        open_failed ''an error occured while setting the event notification'' s
      else Some (True, emit connected s))"

subsection \<open>A fresh object\<close>

text \<open>
  The constructor: the members with an initialiser or a default constructor get their
  initial values (\<^verbatim>\<open>FTDIbaudRate = 115200\<close>, empty flags, strings and buffer, a free
  mutex, a semaphore of 0, a device that is not open); the others (\<^verbatim>\<open>FTDIdtr\<close>,
  \<^verbatim>\<open>FTDIrts\<close>, \<^verbatim>\<open>FTDIlineProperty\<close>, \<^verbatim>\<open>FTDIflowControl\<close>, \<^verbatim>\<open>usbVID\<close>,
  \<^verbatim>\<open>usbPID\<close>, \<^verbatim>\<open>ftdi\<close>) keep whatever the memory held, the argument \<open>mem\<close>.
\<close>

definition FT232_new :: "FT232 \<Rightarrow> FT232" where
  "FT232_new mem = mem\<lparr>
     errFlag := NoError, FTDIbaudRate := 115200,
     productName := [], serialNmb := [], manufacturerName := [], libraryVersion := [],
     ftdiMutex := False, FTDIreadBuffer := [], sem := 0, ftdiEventNotifier := False,
     openMode := NotOpen, errorString := [], driverCalls := [], emitted := []\<rparr>"

text \<open>\<^verbatim>\<open>setPort(VID, PID)\<close>.\<close>

definition setPort :: "32 word \<Rightarrow> 32 word \<Rightarrow> FT232 \<Rightarrow> FT232" where
  "setPort VID PID s = s\<lparr>usbVID := VID, usbPID := PID\<rparr>"

text \<open>A piece of memory for the examples, and the object constructed on it.\<close>

definition memory0 :: FT232 where
  "memory0 = \<lparr>FTDIdtr = False, FTDIrts = False, FTDIlineProperty = SERIAL_8N1,
     FTDIflowControl = NoFlowControl, errFlag = 0, FTDIbaudRate = 0, usbVID = 0, usbPID = 0,
     productName = [], serialNmb = [], manufacturerName = [], libraryVersion = [],
     ftdiMutex = False, ftdi = 0, FTDIreadBuffer = [], sem = 0, ftdiEventNotifier = False,
     openMode = 0, errorString = [], driverCalls = [], emitted = []\<rparr>"

definition fresh :: FT232 where
  "fresh = setPort 0x0403 0x6001 (FT232_new memory0)"

subsection \<open>Concrete driver answers and states\<close>

text \<open>An enumeration of two devices of which the second is the FT232 (VID 0x0403, PID
  0x6001), and a driver that accepts every call of \<^verbatim>\<open>open\<close>.\<close>

definition answer_ok :: open_answer where
  "answer_ok = \<lparr>createDeviceInfoList_ret = FT_OK, getDeviceInfoList_ret = FT_OK,
     devinfo_ID = [0x12345678, 0x04036001], open_ret = FT_OK, open_handle = 7,
     setBaudRate_ret = FT_OK, setLatencyTimer_ret = FT_OK, setTimeouts_ret = FT_OK,
     EE_Read_ret = FT_OK, ee_Description = ''FT232R USB UART'', ee_SerialNumber = ''a50285bi'',
     ee_Manufacturer = ''FTDI'', getLibraryVersion_ret = FT_OK, libVer = 0x00030216,
     setEventNotification_ret = FT_OK\<rparr>"

text \<open>The object after \<^verbatim>\<open>open(ReadWrite)\<close> on a fresh object with that driver.\<close>

definition opened :: FT232 where
  "opened = fresh\<lparr>productName := ''FT232R USB UART'', serialNmb := ''A50285BI'',
     manufacturerName := ''FTDI'', libraryVersion := ''0.00.22'', ftdi := 7,
     ftdiEventNotifier := True, openMode := ReadWrite,
     driverCalls := [FT_CreateDeviceInfoList, FT_GetDeviceInfoList, FT_Open 1,
       FT_SetBaudRate 7 115200, FT_SetLatencyTimer 7 3, FT_SetTimeouts 7 5000 2000,
       FT_EE_Read 7, FT_GetLibraryVersion, FT_Purge 7 3, FT_SetEventNotification 7 3],
     emitted := [connected]\<rparr>"

text \<open>Three runs of the receive slot: two bytes arrive, then a read fails, then one
  more byte arrives.\<close>

definition drain_AB :: receive_answer where
  "drain_AB = \<lparr>queue_ret = FT_OK, queue_bytes = 2, read_ret = FT_OK, read_data = [0x41, 0x42]\<rparr>"

definition drain_failed :: receive_answer where
  "drain_failed = \<lparr>queue_ret = FT_OK, queue_bytes = 4, read_ret = FT_IO_ERROR, read_data = []\<rparr>"

definition drain_C :: receive_answer where
  "drain_C = \<lparr>queue_ret = FT_OK, queue_bytes = 1, read_ret = FT_OK, read_data = [0x43]\<rparr>"

text \<open>Modem status words: only the receiver FIFO error (bit 15), and only the break
  interrupt (bit 12).\<close>

definition fifo_error_status :: modem_answer where
  "fifo_error_status = \<lparr>modem_ret = FT_OK, modemStatus = 0x8000\<rparr>"

definition break_status :: modem_answer where
  "break_status = \<lparr>modem_ret = FT_OK, modemStatus = 0x1000\<rparr>"

text \<open>A status query that fails, and a write of three bytes that the driver accepts in
  full.\<close>

definition status_failed :: status_answer where
  "status_failed = \<lparr>status_ret = FT_IO_ERROR, RxBytes = 0, TxBytes = 0, EventDWord = 1\<rparr>"

definition write_ABC_ok :: write_answer where
  "write_ABC_ok = \<lparr>write_ret = FT_OK, bytesWritten = 3\<rparr>"

text \<open>The driver calls of a log that set the baud rate, as the values they set.\<close>

fun baudRateCalls :: "driver_call list \<Rightarrow> 32 word list" where
  "baudRateCalls [] = []"
| "baudRateCalls (FT_SetBaudRate h b # cs) = b # baudRateCalls cs"
| "baudRateCalls (c # cs) = baudRateCalls cs"

section \<open>Properties\<close>

subsection \<open>The example states\<close>

lemma open_fresh: "open ReadWrite answer_ok fresh = Some (True, opened)"
  by code_simp

lemma opened_facts:
  "\<not> ftdiMutex opened" "isOpen opened" "FTDIreadBuffer opened = []" "sem opened = 0"
  "errFlag opened = NoError"
  by (simp_all add: opened_def fresh_def FT232_new_def setPort_def isOpen_def ReadWrite_def
      NotOpen_def)

lemma fresh_facts:
  "\<not> ftdiMutex fresh" "\<not> isOpen fresh" "FTDIreadBuffer fresh = []" "sem fresh = 0"
  "errFlag fresh = NoError" "FTDIbaudRate fresh = 115200"
  by (simp_all add: fresh_def FT232_new_def setPort_def isOpen_def)

subsection \<open>The receive buffer is a queue\<close>

text \<open>One run of the receive slot returns, leaves the mutex free, appends its chunk at
  the back of the buffer and releases as many resources of the semaphore.\<close>

lemma on_FTDIreceive_buffer:
  assumes "\<not> ftdiMutex s"
  shows "\<exists>s'. on_FTDIreceive d s = Some s' \<and> \<not> ftdiMutex s'
     \<and> FTDIreadBuffer s' = FTDIreadBuffer s @ chunk d
     \<and> sem s' = sem s + int (length (chunk d))"
  using assms
  by (simp add: on_FTDIreceive_def lock_def unlock_def driver_def emit_def release_def
      setErrorString_def chunk_def Let_def FT_OK_def FT_IO_ERROR_def)

lemma drains_buffer:
  "\<not> ftdiMutex s \<Longrightarrow> \<exists>s'. drains ds s = Some s' \<and> \<not> ftdiMutex s'
     \<and> FTDIreadBuffer s' = FTDIreadBuffer s @ concat (map chunk ds)
     \<and> sem s' = sem s + int (length (concat (map chunk ds)))"
proof (induction ds arbitrary: s)
  case Nil
  then show ?case by simp
next
  case (Cons d ds)
  from on_FTDIreceive_buffer [OF Cons.prems, of d] obtain s1 where
    s1: "on_FTDIreceive d s = Some s1" "\<not> ftdiMutex s1"
      "FTDIreadBuffer s1 = FTDIreadBuffer s @ chunk d"
      "sem s1 = sem s + int (length (chunk d))"
    by blast
  from Cons.IH [OF s1(2)] obtain s2 where
    s2: "drains ds s1 = Some s2" "\<not> ftdiMutex s2"
      "FTDIreadBuffer s2 = FTDIreadBuffer s1 @ concat (map chunk ds)"
      "sem s2 = sem s1 + int (length (concat (map chunk ds)))"
    by blast
  show ?case using s1 s2 by simp
qed

text \<open>A read of at least the buffer's length, when the semaphore counts the buffer,
  takes the whole buffer.\<close>

lemma readData_all:
  assumes "sem s = int (length (FTDIreadBuffer s))" "int (length (FTDIreadBuffer s)) \<le> k"
  shows "readData k s = Some (int (length (FTDIreadBuffer s)), FTDIreadBuffer s,
     s\<lparr>sem := 0, FTDIreadBuffer := []\<rparr>)"
  using assms
  by (cases "FTDIreadBuffer s = []") (auto simp add: readData_def tryAcquire_def Let_def min_def)

text \<open>
  Claim C1. After any sequence of runs of the receive slot, a read that asks for at least
  as many bytes as are buffered returns the chunks the runs appended, concatenated in the
  order of the runs, and empties the buffer. The object starts with a free mutex and a
  semaphore that counts the buffer, as a fresh or a freshly opened object does with its
  empty buffer; bytes buffered before come first. A run whose read fails appends nothing.
\<close>

theorem drains_then_readData_fifo:
  assumes free: "\<not> ftdiMutex s"
    and inv: "sem s = int (length (FTDIreadBuffer s))"
    and enough: "int (length (FTDIreadBuffer s @ concat (map chunk ds))) \<le> k"
  shows "\<exists>s1 s2. drains ds s = Some s1
     \<and> readData k s1 = Some (int (length (FTDIreadBuffer s @ concat (map chunk ds))),
          FTDIreadBuffer s @ concat (map chunk ds), s2)
     \<and> FTDIreadBuffer s2 = [] \<and> sem s2 = 0"
proof -
  from drains_buffer [OF free, of ds] obtain s1 where
    s1: "drains ds s = Some s1"
      "FTDIreadBuffer s1 = FTDIreadBuffer s @ concat (map chunk ds)"
      "sem s1 = sem s + int (length (concat (map chunk ds)))"
    by blast
  have "sem s1 = int (length (FTDIreadBuffer s1))"
    using s1 inv by simp
  moreover have "int (length (FTDIreadBuffer s1)) \<le> k"
    using s1 enough by simp
  ultimately have "readData k s1 = Some (int (length (FTDIreadBuffer s1)), FTDIreadBuffer s1,
      s1\<lparr>sem := 0, FTDIreadBuffer := []\<rparr>)"
    by (rule readData_all)
  with s1 show ?thesis by simp
qed

theorem drains_then_readData_fifo_witness:
  "\<exists>s1 s2. drains [drain_AB, drain_failed, drain_C] opened = Some s1
     \<and> readData 10 s1 = Some (3, [0x41, 0x42, 0x43], s2)
     \<and> FTDIreadBuffer s2 = [] \<and> sem s2 = 0"
proof -
  have free: "\<not> ftdiMutex opened" and inv: "sem opened = int (length (FTDIreadBuffer opened))"
    by (simp_all add: opened_facts)
  have chunks: "FTDIreadBuffer opened @ concat (map chunk [drain_AB, drain_failed, drain_C])
      = [0x41, 0x42, 0x43]"
    by (simp add: opened_facts chunk_def drain_AB_def drain_failed_def drain_C_def
        FT_OK_def FT_IO_ERROR_def)
  have enough: "int (length (FTDIreadBuffer opened
      @ concat (map chunk [drain_AB, drain_failed, drain_C]))) \<le> 10"
    unfolding chunks by simp
  from drains_then_readData_fifo [OF free inv enough] show ?thesis
    unfolding chunks by simp
qed

subsection \<open>Reads that find nothing\<close>

text \<open>A negative size on an empty buffer is not answered by 0: it goes to
  \<^verbatim>\<open>tryAcquire\<close> as a negative count.\<close>

lemma readData_negative:
  "FTDIreadBuffer s = [] \<Longrightarrow> k < 0 \<Longrightarrow> readData k s = None"
  by (simp add: readData_def tryAcquire_def Let_def min_def)

text \<open>A read keeps the semaphore equal to the length of the buffer.\<close>

lemma readData_keeps_count:
  assumes "sem s = int (length (FTDIreadBuffer s))" "0 \<le> k" "readData k s = Some (n, bs, s')"
  shows "sem s' = int (length (FTDIreadBuffer s'))
     \<and> FTDIreadBuffer s = bs @ FTDIreadBuffer s' \<and> n = int (length bs)"
  using assms
  by (auto simp add: readData_def tryAcquire_def Let_def min_def split: if_splits)




subsection \<open>The modem status word\<close>

text \<open>The mask of the serious errors is the four bits the second half of the slot tests
  one by one.\<close>

lemma seriousErrors_bits:
  "w AND seriousErrors = (w AND 0x0200) OR (w AND 0x0400) OR (w AND 0x0800) OR (w AND 0x8000)"
proof -
  have e: "(0x8E00 :: 32 word) = 0x0200 OR 0x0400 OR 0x0800 OR 0x8000"
    by simp
  show ?thesis
    unfolding seriousErrors_def by (subst e) (simp only: bit.conj_disj_distrib)
qed

lemma seriousErrors_clear_iff:
  "w AND seriousErrors = 0 \<longleftrightarrow>
     w AND 0x0200 = 0 \<and> w AND 0x0400 = 0 \<and> w AND 0x0800 = 0 \<and> w AND 0x8000 = 0"
  unfolding seriousErrors_bits by (auto simp add: or_eq_0_iff)

text \<open>
  Claim C3. When the modem status is read and has the overrun (bit 9), parity (bit 10),
  framing (bit 11) or FIFO (bit 15) error bit set, the slot returns after exactly two
  driver calls, the status read and a purge of the receive and the transmit buffer; the
  error flags, what \<^verbatim>\<open>error()\<close> reports and the emitted signals are as before, so no
  \<^verbatim>\<open>errorOccurred\<close> is emitted.
\<close>

theorem on_FTDImodemError_serious_purges:
  assumes free: "\<not> ftdiMutex s"
    and ok: "modem_ret d = FT_OK"
    and serious: "modemStatus d AND 0x0200 \<noteq> 0 \<or> modemStatus d AND 0x0400 \<noteq> 0
       \<or> modemStatus d AND 0x0800 \<noteq> 0 \<or> modemStatus d AND 0x8000 \<noteq> 0"
  shows "\<exists>s'. on_FTDImodemError d s = Some s'
     \<and> s' = s\<lparr>driverCalls := driverCalls s
          @ [FT_GetModemStatus (ftdi s), FT_Purge (ftdi s) (FT_PURGE_RX OR FT_PURGE_TX)]\<rparr>
     \<and> errFlag s' = errFlag s \<and> error s' = error s \<and> emitted s' = emitted s"
proof -
  from serious have "modemStatus d AND seriousErrors \<noteq> 0"
    by (auto simp add: seriousErrors_clear_iff)
  with free ok show ?thesis
    by (simp add: on_FTDImodemError_def lock_def unlock_def driver_def error_def)
qed

text \<open>The status word \<open>0b1000_0000_0000_0000\<close> on an open device without error: a
  purge, and \<^verbatim>\<open>error()\<close> is still \<^verbatim>\<open>NoError\<close>.\<close>

theorem on_FTDImodemError_serious_purges_witness:
  "error opened = NoError \<and>
   (\<exists>s'. on_FTDImodemError fifo_error_status opened = Some s'
     \<and> driverCalls s' = driverCalls opened @ [FT_GetModemStatus 7, FT_Purge 7 3]
     \<and> error s' = NoError \<and> emitted s' = emitted opened)"
proof -
  have free: "\<not> ftdiMutex opened" by (simp add: opened_facts)
  have ok: "modem_ret fifo_error_status = FT_OK" by (simp add: fifo_error_status_def)
  have serious: "modemStatus fifo_error_status AND 0x0200 \<noteq> 0
       \<or> modemStatus fifo_error_status AND 0x0400 \<noteq> 0
       \<or> modemStatus fifo_error_status AND 0x0800 \<noteq> 0
       \<or> modemStatus fifo_error_status AND 0x8000 \<noteq> 0"
    by (simp add: fifo_error_status_def)
  have h: "ftdi opened = 7" "FT_PURGE_RX OR FT_PURGE_TX = 3"
    by (simp_all add: opened_def FT_PURGE_RX_def FT_PURGE_TX_def)
  have e: "error opened = NoError"
    by (simp add: error_def opened_facts)
  from on_FTDImodemError_serious_purges [OF free ok serious] obtain s' where
    "on_FTDImodemError fifo_error_status opened = Some s'"
    "s' = opened\<lparr>driverCalls := driverCalls opened
          @ [FT_GetModemStatus (ftdi opened), FT_Purge (ftdi opened) (FT_PURGE_RX OR FT_PURGE_TX)]\<rparr>"
    "error s' = error opened" "emitted s' = emitted opened"
    by blast
  then show ?thesis
    by (simp add: h e)
qed

text \<open>
  Claim C4. When the modem status is read, its four serious error bits are clear and its
  break interrupt bit (bit 12) is set, the slot sets the error flags to the break
  condition (so they contain it), and its only driver call is the status read: nothing
  is purged.
\<close>

theorem on_FTDImodemError_break_only:
  assumes free: "\<not> ftdiMutex s"
    and ok: "modem_ret d = FT_OK"
    and not_serious: "modemStatus d AND 0x0200 = 0" "modemStatus d AND 0x0400 = 0"
       "modemStatus d AND 0x0800 = 0" "modemStatus d AND 0x8000 = 0"
    and break: "modemStatus d AND 0x1000 \<noteq> 0"
  shows "\<exists>s'. on_FTDImodemError d s = Some s'
     \<and> s' = s\<lparr>driverCalls := driverCalls s @ [FT_GetModemStatus (ftdi s)],
              errFlag := BreakConditionError\<rparr>
     \<and> testFlag (error s') BreakConditionError
     \<and> driverCalls s' = driverCalls s @ [FT_GetModemStatus (ftdi s)]"
proof -
  from not_serious have "modemStatus d AND seriousErrors = 0"
    by (simp add: seriousErrors_clear_iff)
  with free ok not_serious break show ?thesis
    by (simp add: on_FTDImodemError_def lock_def unlock_def driver_def NoError_def testFlag_def
        BreakConditionError_def error_def)
qed

theorem on_FTDImodemError_break_only_witness:
  "\<exists>s'. on_FTDImodemError break_status opened = Some s'
     \<and> error s' = BreakConditionError
     \<and> driverCalls s' = driverCalls opened @ [FT_GetModemStatus 7]"
proof -
  have free: "\<not> ftdiMutex opened" by (simp add: opened_facts)
  have ok: "modem_ret break_status = FT_OK" by (simp add: break_status_def)
  have not_serious: "modemStatus break_status AND 0x0200 = 0"
    "modemStatus break_status AND 0x0400 = 0" "modemStatus break_status AND 0x0800 = 0"
    "modemStatus break_status AND 0x8000 = 0"
    by (simp_all add: break_status_def)
  have break: "modemStatus break_status AND 0x1000 \<noteq> 0"
    by (simp add: break_status_def)
  have h: "ftdi opened = 7"
    by (simp add: opened_def)
  from on_FTDImodemError_break_only [OF free ok not_serious break] show ?thesis
    by (auto simp add: h error_def)
qed

subsection \<open>Writing\<close>

text \<open>What \<^verbatim>\<open>writeData\<close> returns for every driver answer: the status code 0 when the
  write succeeded, whatever the driver stored in \<^verbatim>\<open>_bytesWritten\<close>, and \<open>-1\<close> with
  an error message when it failed.\<close>

lemma writeData_success:
  "\<not> ftdiMutex s \<Longrightarrow> write_ret d = FT_OK \<Longrightarrow>
     writeData data d s = Some (0, s\<lparr>driverCalls := driverCalls s @ [FT_Write (ftdi s) data]\<rparr>)"
  by (simp add: writeData_def lock_def unlock_def driver_def FT_OK_def)

lemma writeData_failure:
  "\<not> ftdiMutex s \<Longrightarrow> write_ret d \<noteq> FT_OK \<Longrightarrow>
     writeData data d s = Some (- 1, s\<lparr>driverCalls := driverCalls s @ [FT_Write (ftdi s) data],
       errorString := ''an error occured while writing to the port''\<rparr>)"
  by (simp add: writeData_def lock_def unlock_def driver_def setErrorString_def)

text \<open>
  Claim C5. The claim is that a successful write returns the number of bytes the driver
  reports as written. On the open device, a write of the three bytes \<open>ABC\<close> that the
  driver accepts in full (\<^verbatim>\<open>FT_OK\<close>, \<^verbatim>\<open>_bytesWritten = 3\<close>) returns 0: the function
  returns the status \<^verbatim>\<open>ret\<close> and never reads \<^verbatim>\<open>_bytesWritten\<close>.
\<close>

theorem writeData_returns_status:
  "writeData [0x41, 0x42, 0x43] write_ABC_ok opened
     = Some (0, opened\<lparr>driverCalls := driverCalls opened @ [FT_Write 7 [0x41, 0x42, 0x43]]\<rparr>)"
  by (simp add: writeData_def write_ABC_ok_def lock_def unlock_def driver_def opened_def FT_OK_def
      fresh_def FT232_new_def setPort_def memory0_def)

subsection \<open>Configuration while the device is closed\<close>

text \<open>\<^verbatim>\<open>setDataTerminalReady\<close> and \<^verbatim>\<open>setRequestToSend\<close> test \<^verbatim>\<open>isOpen()\<close> first: on
  a closed device they return false and leave the object, its log of driver calls
  included, as it was.\<close>

lemma setDataTerminalReady_closed:
  "\<not> isOpen s \<Longrightarrow> setDataTerminalReady b ans s = Some (False, s)"
  by (simp add: setDataTerminalReady_def)

lemma setRequestToSend_closed:
  "\<not> isOpen s \<Longrightarrow> setRequestToSend b ans s = Some (False, s)"
  by (simp add: setRequestToSend_def)

text \<open>\<^verbatim>\<open>setLineProperty\<close> and \<^verbatim>\<open>setFlowControl\<close> have no such test: open or closed,
  they make their driver call, and return whether the driver accepted it.\<close>

lemma setLineProperty_calls_driver:
  "\<not> ftdiMutex s \<Longrightarrow> \<exists>r s' bits sbit parity. setLineProperty line ans s = Some (r, s')
     \<and> driverCalls s' = driverCalls s @ [FT_SetDataCharacteristics (ftdi s) bits sbit parity]
     \<and> r = (ans = FT_OK)"
  by (cases line) (simp_all add: setLineProperty_def lock_def unlock_def driver_def
      setErrorString_def emit_def Let_def)

lemma setFlowControl_calls_driver:
  "\<not> ftdiMutex s \<Longrightarrow> \<exists>r s' flowctrl. setFlowControl flow ans s = Some (r, s')
     \<and> driverCalls s' = driverCalls s @ [FT_SetFlowControl (ftdi s) flowctrl 0x11 0x13]
     \<and> r = (ans = FT_OK)"
  by (cases flow) (simp_all add: setFlowControl_def lock_def unlock_def driver_def
      setErrorString_def emit_def Let_def)

text \<open>
  Claim C6. The claim is that the four setters, called on a closed device, fail without
  any driver call. On a fresh object, which was never opened, \<^verbatim>\<open>setLineProperty\<close> calls
  \<^verbatim>\<open>FT_SetDataCharacteristics\<close> and \<^verbatim>\<open>setFlowControl\<close> calls \<^verbatim>\<open>FT_SetFlowControl\<close>,
  both on the handle that was never opened; here the driver refuses the handle and the
  calls return false. \<^verbatim>\<open>setLineProperty\<close> has stored the line property all the same.
\<close>

theorem setLineProperty_setFlowControl_closed_call_driver:
  "\<not> isOpen fresh
   \<and> setLineProperty SERIAL_8E1 FT_INVALID_HANDLE fresh
     = Some (False, fresh\<lparr>FTDIlineProperty := SERIAL_8E1,
         driverCalls := [FT_SetDataCharacteristics 0 FT_BITS_8 FT_STOP_BITS_1 FT_PARITY_EVEN],
         errorString := ''an error occured while setting the data characteristics''\<rparr>)
   \<and> setFlowControl HardwareControl FT_INVALID_HANDLE fresh
     = Some (False, fresh\<lparr>driverCalls := [FT_SetFlowControl 0 FT_FLOW_RTS_CTS 0x11 0x13],
         errorString := ''an error occured while setting the flow control''\<rparr>)"
  by (simp add: setLineProperty_def setFlowControl_def lock_def unlock_def driver_def
      setErrorString_def FT_INVALID_HANDLE_def FT_OK_def fresh_def FT232_new_def setPort_def
      memory0_def isOpen_def)

subsection \<open>The baud rate\<close>

text \<open>The driver calls of an \<^verbatim>\<open>open\<close> that returns true.\<close>

lemma open_success_calls:
  assumes "open mode d s = Some (True, s2)"
  shows "driverCalls s2 = driverCalls s @
     [FT_CreateDeviceInfoList, FT_GetDeviceInfoList,
      FT_Open (find_deviceId (devinfo_ID d) (usbVID s * 0x10000 + usbPID s) 0),
      FT_SetBaudRate (open_handle d) (FTDIbaudRate s),
      FT_SetLatencyTimer (open_handle d) (ucast FTDI_LATENCY),
      FT_SetTimeouts (open_handle d) 5000 2000,
      FT_EE_Read (open_handle d), FT_GetLibraryVersion,
      FT_Purge (open_handle d) (FT_PURGE_RX OR FT_PURGE_TX),
      FT_SetEventNotification (open_handle d) (FT_EVENT_RXCHAR OR FT_EVENT_MODEM_STATUS)]"
  using assms
  by (simp add: open_def Let_def open_failed_def driver_def setErrorString_def setOpenMode_def
      emit_def split: if_splits Option.bind_splits) auto

lemma baudRateCalls_append: "baudRateCalls (xs @ ys) = baudRateCalls xs @ baudRateCalls ys"
  by (induction xs rule: baudRateCalls.induct) simp_all

lemma open_fresh_9600:
  "open ReadWrite answer_ok (fresh\<lparr>FTDIbaudRate := 9600\<rparr>)
     = Some (True, opened\<lparr>FTDIbaudRate := 9600,
         driverCalls := [FT_CreateDeviceInfoList, FT_GetDeviceInfoList, FT_Open 1,
           FT_SetBaudRate 7 9600, FT_SetLatencyTimer 7 3, FT_SetTimeouts 7 5000 2000,
           FT_EE_Read 7, FT_GetLibraryVersion, FT_Purge 7 3, FT_SetEventNotification 7 3]\<rparr>)"
  by code_simp

text \<open>
  Claim C7. On a closed device \<^verbatim>\<open>setBaudRate(b)\<close>, for every \<^verbatim>\<open>qint32\<close> value \<open>b\<close>,
  returns true without a driver call and stores \<open>b\<close>: \<^verbatim>\<open>baudRate()\<close> reads \<open>b\<close> back.
  Every \<^verbatim>\<open>open\<close> that follows and returns true has set the baud rate of the hardware
  once, to \<open>b\<close>, on the handle it opened.
\<close>

theorem setBaudRate_closed_then_open:
  assumes closed: "\<not> isOpen s" and range: "- (2 ^ 31) \<le> b" "b < 2 ^ 31"
  shows "\<exists>s1. setBaudRate b ans s = Some (True, s1)
     \<and> s1 = s\<lparr>FTDIbaudRate := word_of_int b\<rparr> \<and> baudRate s1 = b
     \<and> (\<forall>mode d s2. open mode d s1 = Some (True, s2) \<longrightarrow>
           baudRateCalls (driverCalls s2) = baudRateCalls (driverCalls s) @ [word_of_int b]
           \<and> FT_SetBaudRate (open_handle d) (word_of_int b) \<in> set (driverCalls s2))"
proof -
  let ?s1 = "s\<lparr>FTDIbaudRate := word_of_int b\<rparr>"
  have set: "setBaudRate b ans s = Some (True, ?s1)"
    using closed by (simp add: setBaudRate_def isOpen_def)
  have get: "baudRate ?s1 = b"
    using range by (simp add: baudRate_def signed_of_int signed_take_bit_int_eq_self)
  have "baudRateCalls (driverCalls s2) = baudRateCalls (driverCalls s) @ [word_of_int b]
      \<and> FT_SetBaudRate (open_handle d) (word_of_int b) \<in> set (driverCalls s2)"
    if "open mode d ?s1 = Some (True, s2)" for mode d s2
    using open_success_calls [OF that] by (simp add: baudRateCalls_append)
  with set get show ?thesis by blast
qed

theorem setBaudRate_closed_then_open_witness:
  "\<exists>s1 s2. setBaudRate 9600 FT_OK fresh = Some (True, s1) \<and> baudRate s1 = 9600
     \<and> open ReadWrite answer_ok s1 = Some (True, s2)
     \<and> baudRateCalls (driverCalls s2) = [9600]
     \<and> FT_SetBaudRate 7 9600 \<in> set (driverCalls s2)"
proof -
  have closed: "\<not> isOpen fresh" by (simp add: fresh_facts)
  have range: "- (2 ^ 31) \<le> (9600 :: int)" "(9600 :: int) < 2 ^ 31" by simp_all
  from setBaudRate_closed_then_open [OF closed range, of FT_OK] obtain s1 where
    s1: "setBaudRate 9600 FT_OK fresh = Some (True, s1)"
      "s1 = fresh\<lparr>FTDIbaudRate := word_of_int 9600\<rparr>" "baudRate s1 = 9600"
      and opens: "\<And>mode d s2. open mode d s1 = Some (True, s2) \<Longrightarrow>
           baudRateCalls (driverCalls s2) = baudRateCalls (driverCalls fresh) @ [word_of_int 9600]
           \<and> FT_SetBaudRate (open_handle d) (word_of_int 9600) \<in> set (driverCalls s2)"
    by blast
  from s1(2) have "s1 = fresh\<lparr>FTDIbaudRate := 9600\<rparr>" by simp
  with open_fresh_9600 obtain s2 where s2: "open ReadWrite answer_ok s1 = Some (True, s2)"
    by simp
  from opens [OF s2] have "baudRateCalls (driverCalls s2) = [9600]"
    "FT_SetBaudRate 7 9600 \<in> set (driverCalls s2)"
    by (simp_all add: fresh_def FT232_new_def setPort_def answer_ok_def)
  with s1 s2 show ?thesis by blast
qed

text \<open>
  Claim C10. On an open device, when the driver refuses the baud rate, \<^verbatim>\<open>setBaudRate(b)\<close>
  returns false and has closed the device: after the \<^verbatim>\<open>FT_SetBaudRate\<close> call, which
  already carries \<open>b\<close>, comes the \<^verbatim>\<open>FT_Close\<close> of \<^verbatim>\<open>close()\<close>, the device is not open
  any more and \<^verbatim>\<open>aboutToClose\<close> is emitted. The stored baud rate is \<open>b\<close>.
\<close>

theorem setBaudRate_open_failure_closes:
  assumes "isOpen s" and free: "\<not> ftdiMutex s" and failed: "ans \<noteq> FT_OK"
  shows "\<exists>s'. setBaudRate b ans s = Some (False, s')
     \<and> s' = s\<lparr>FTDIbaudRate := word_of_int b,
              driverCalls := driverCalls s
                @ [FT_SetBaudRate (ftdi s) (word_of_int b), FT_Close (ftdi s)],
              errorString := ''an error occured while setting the baudrate'',
              openMode := NotOpen,
              emitted := emitted s @ [aboutToClose]\<rparr>
     \<and> \<not> isOpen s' \<and> FTDIbaudRate s' = word_of_int b"
  using assms
  by (simp add: setBaudRate_def close_def lock_def unlock_def driver_def setOpenMode_def emit_def
      setErrorString_def isOpen_def)

theorem setBaudRate_open_failure_closes_witness:
  "isOpen opened \<and> (\<exists>s'. setBaudRate 1234567 FT_IO_ERROR opened = Some (False, s')
     \<and> \<not> isOpen s' \<and> baudRate s' = 1234567
     \<and> driverCalls s' = driverCalls opened @ [FT_SetBaudRate 7 1234567, FT_Close 7]
     \<and> emitted s' = emitted opened @ [aboutToClose])"
proof -
  have isopen: "isOpen opened" and free: "\<not> ftdiMutex opened" by (simp_all add: opened_facts)
  have failed: "FT_IO_ERROR \<noteq> FT_OK" by (simp add: FT_IO_ERROR_def FT_OK_def)
  have h: "ftdi opened = 7" by (simp add: opened_def)
  from setBaudRate_open_failure_closes [OF isopen free failed, of 1234567] show ?thesis
    by (auto simp add: h isopen baudRate_def)
qed

subsection \<open>The event slot when the status query fails\<close>

text \<open>
  Claim C8. When \<^verbatim>\<open>FT_GetStatus\<close> fails, the event slot returns with the error flags
  set to exactly \<^verbatim>\<open>NotOpenError\<close> on a closed device and to \<^verbatim>\<open>ReadError\<close> on an open
  one, the error message set and \<^verbatim>\<open>errorOccurred\<close> emitted. The status query is its only
  driver call (no modem status is read, no byte is read) and the buffer and the semaphore
  are as before, whatever the event word and the other answers of the driver would be.
\<close>

theorem on_FTDIevent_status_failure:
  assumes free: "\<not> ftdiMutex s" and failed: "status_ret st \<noteq> FT_OK"
  shows "on_FTDIevent st md rc s = Some (s\<lparr>
       driverCalls := driverCalls s @ [FT_GetStatus (ftdi s)],
       errorString := ''an error occured while reading the device status'',
       errFlag := (if isOpen s then ReadError else NotOpenError),
       emitted := emitted s @ [errorOccurred]\<rparr>)"
  using assms
  by (simp add: on_FTDIevent_def lock_def unlock_def driver_def setErrorString_def emit_def
      isOpen_def)

theorem on_FTDIevent_status_failure_witness:
  "on_FTDIevent status_failed break_status drain_AB opened
     = Some (opened\<lparr>driverCalls := driverCalls opened @ [FT_GetStatus 7],
         errorString := ''an error occured while reading the device status'',
         errFlag := ReadError, emitted := emitted opened @ [errorOccurred]\<rparr>)
   \<and> on_FTDIevent status_failed break_status drain_AB fresh
     = Some (fresh\<lparr>driverCalls := driverCalls fresh @ [FT_GetStatus 0],
         errorString := ''an error occured while reading the device status'',
         errFlag := NotOpenError, emitted := emitted fresh @ [errorOccurred]\<rparr>)"
proof -
  have failed: "status_ret status_failed \<noteq> FT_OK"
    by (simp add: status_failed_def FT_IO_ERROR_def FT_OK_def)
  have free: "\<not> ftdiMutex opened" "\<not> ftdiMutex fresh"
    by (simp_all add: opened_facts fresh_facts)
  have h: "ftdi opened = 7" "ftdi fresh = 0"
    by (simp_all add: opened_def fresh_def FT232_new_def setPort_def memory0_def)
  from on_FTDIevent_status_failure [OF free(1) failed, of break_status drain_AB]
    on_FTDIevent_status_failure [OF free(2) failed, of break_status drain_AB]
  show ?thesis
    by (simp add: h opened_facts fresh_facts)
qed

subsection \<open>Closing twice\<close>

text \<open>
  Claim C9. \<^verbatim>\<open>close()\<close> returns, and a second \<^verbatim>\<open>close()\<close> right after it returns too
  (the first one released the mutex). The device is closed after each. The second call
  changes the object in its two logs only, by one more \<^verbatim>\<open>FT_Close\<close> and one more
  \<^verbatim>\<open>aboutToClose\<close>: the error flags and message, the buffer, the semaphore and the
  configuration are what they were after the first call, and no error is signalled.
\<close>

theorem close_twice:
  assumes free: "\<not> ftdiMutex s"
  shows "\<exists>s1 s2. close s = Some s1 \<and> close s1 = Some s2
     \<and> \<not> isOpen s1 \<and> \<not> isOpen s2 \<and> \<not> ftdiMutex s2
     \<and> s2 = s1\<lparr>driverCalls := driverCalls s1 @ [FT_Close (ftdi s1)],
               emitted := emitted s1 @ [aboutToClose]\<rparr>
     \<and> error s2 = error s1 \<and> errorString s2 = errorString s1
     \<and> FTDIreadBuffer s2 = FTDIreadBuffer s1 \<and> sem s2 = sem s1
     \<and> FTDIbaudRate s2 = FTDIbaudRate s1 \<and> FTDIlineProperty s2 = FTDIlineProperty s1
     \<and> FTDIflowControl s2 = FTDIflowControl s1 \<and> FTDIdtr s2 = FTDIdtr s1
     \<and> FTDIrts s2 = FTDIrts s1"
  using free
  by (simp add: close_def lock_def unlock_def driver_def setOpenMode_def emit_def isOpen_def
      error_def)

theorem close_twice_witness:
  "\<exists>s1 s2. close opened = Some s1 \<and> close s1 = Some s2
     \<and> \<not> isOpen s1 \<and> \<not> isOpen s2
     \<and> error s2 = error s1 \<and> errorString s2 = errorString s1
     \<and> FTDIreadBuffer s2 = FTDIreadBuffer s1 \<and> sem s2 = sem s1
     \<and> FTDIbaudRate s2 = FTDIbaudRate s1 \<and> FTDIlineProperty s2 = FTDIlineProperty s1
     \<and> FTDIflowControl s2 = FTDIflowControl s1 \<and> FTDIdtr s2 = FTDIdtr s1
     \<and> FTDIrts s2 = FTDIrts s1"
proof -
  have free: "\<not> ftdiMutex opened" by (simp add: opened_facts)
  from close_twice [OF free] show ?thesis by blast
qed

end
